theory Spec2Isabelle
  imports Complex_Main
begin

section \<open>Run-time values\<close>

text \<open>
  The TypeScript types of \<^verbatim>\<open>types.ts\<close> are erased at run time: a field of a telemetry
  object holds whatever value the code stored there, which for data coming from
  \<^verbatim>\<open>JSON.parse\<close> may be any JSON value or \<^verbatim>\<open>undefined\<close>. Numbers are modelled as reals
  (IEEE rounding, NaN and the infinities are left out).
\<close>

datatype jsval =
    JUndefined
  | JNull
  | JBool bool
  | JNum real
  | JStr string
  | JArray "jsval list"
  | JObject "(string \<times> jsval) list"

text \<open>An object built by an object literal or a spread: its own keys and their values.\<close>

type_synonym obj = "string \<rightharpoonup> jsval"

text \<open>\<^verbatim>\<open>SensorData\<close> and \<^verbatim>\<open>Partial<SensorData>\<close> are both plain objects at run time.\<close>

type_synonym SensorData = obj

text \<open>ToBoolean, as \<^verbatim>\<open>||\<close> and \<^verbatim>\<open>&&\<close> apply it.\<close>

fun truthy :: "jsval \<Rightarrow> bool" where
  "truthy JUndefined = False"
| "truthy JNull = False"
| "truthy (JBool b) = b"
| "truthy (JNum r) = (r \<noteq> 0)"
| "truthy (JStr s) = (s \<noteq> [])"
| "truthy (JArray vs) = True"
| "truthy (JObject kvs) = True"

text \<open>\<^verbatim>\<open>a || b\<close>\<close>

definition js_or :: "jsval \<Rightarrow> jsval \<Rightarrow> jsval" where
  "js_or a b = (if truthy a then a else b)"

text \<open>
  \<^verbatim>\<open>data.k\<close> for a value that came out of \<^verbatim>\<open>JSON.parse\<close> and is neither \<^verbatim>\<open>null\<close> nor
  \<^verbatim>\<open>undefined\<close> (there the access throws; the callers test for it first). It is only used
  with the telemetry keys, none of which is a property of a string, a number or an array.
\<close>

fun get :: "jsval \<Rightarrow> string \<Rightarrow> jsval" where
  "get (JObject kvs) k = (case map_of kvs k of None \<Rightarrow> JUndefined | Some v \<Rightarrow> v)"
| "get v k = JUndefined"

text \<open>\<^verbatim>\<open>o.k\<close> for an object of the program.\<close>

definition field :: "obj \<Rightarrow> string \<Rightarrow> jsval" where
  "field ob k = (case ob k of None \<Rightarrow> JUndefined | Some v \<Rightarrow> v)"

section \<open>types.ts\<close>

datatype RobotMode = FLIGHT | TRACK

datatype ConnectionStatus = DISCONNECTED | CONNECTING | CONNECTED | ERROR

record AlgorithmConfig =
  maxSlope :: real
  maxStepHeight :: real
  maxRoughness :: real

text \<open>
  \<^verbatim>\<open>Position\<close> and \<^verbatim>\<open>TrajectoryPoint\<close> both have fields \<^verbatim>\<open>x\<close> and \<^verbatim>\<open>y\<close>; the prefixes
  keep the two records apart.
\<close>

record Position =
  pos_x :: real
  pos_y :: real
  pos_z :: real
  heading :: real

text \<open>
  \<^verbatim>\<open>riskLevel\<close> is declared a number but receives \<^verbatim>\<open>latestSensor.methane\<close> unchecked;
  \<^verbatim>\<open>timestamp\<close> is optional (\<open>None\<close>: the key is absent).
\<close>

record TrajectoryPoint =
  pt_x :: real
  pt_y :: real
  riskLevel :: jsval
  pt_timestamp :: "jsval option"

text \<open>The keys of the \<^verbatim>\<open>SensorData\<close> interface.\<close>

definition SensorData_keys :: "string list" where
  "SensorData_keys =
     [''timestamp'', ''methane'', ''methaneRaw'', ''temperature'', ''humidity'', ''windSpeed'',
      ''battery'', ''wifiSignal'', ''obstacleDistance'', ''slamRmse'', ''featureDensity'',
      ''hydraulicDiameter'', ''slope'', ''stepHeight'', ''roughness'', ''traversable'']"

section \<open>services/mockDataService.ts\<close>

definition startX :: real where "startX = 50"
definition startY :: real where "startY = 50"
definition radius :: real where "radius = 30"

definition DEFAULT_THETA_LIM :: real where "DEFAULT_THETA_LIM = 35"
definition DEFAULT_H_LIM :: real where "DEFAULT_H_LIM = 0.32"
definition DEFAULT_SIGMA_SAFE :: real where "DEFAULT_SIGMA_SAFE = 0.05"

text \<open>
  \<^verbatim>\<open>parseFloat(v.toFixed(d))\<close> for the non-negative values it is applied to: the nearest
  multiple of \<open>10\<^sup>-\<^sup>d\<close>, the larger one at a tie.
\<close>

definition toFixed :: "nat \<Rightarrow> real \<Rightarrow> real" where
  "toFixed d v = real_of_int (round (v * 10 ^ d)) / 10 ^ d"

text \<open>\<^verbatim>\<open>config?.maxSlope ?? DEFAULT_THETA_LIM\<close> and its two siblings (lines 19 to 21).\<close>

definition limitSlope :: "AlgorithmConfig option \<Rightarrow> real" where
  "limitSlope config = (case config of None \<Rightarrow> DEFAULT_THETA_LIM | Some c \<Rightarrow> maxSlope c)"

definition limitStep :: "AlgorithmConfig option \<Rightarrow> real" where
  "limitStep config = (case config of None \<Rightarrow> DEFAULT_H_LIM | Some c \<Rightarrow> maxStepHeight c)"

definition limitRough :: "AlgorithmConfig option \<Rightarrow> real" where
  "limitRough config = (case config of None \<Rightarrow> DEFAULT_SIGMA_SAFE | Some c \<Rightarrow> maxRoughness c)"

text \<open>
  The terrain features of lines 39 to 41, before any rounding, as functions of the tick
  counter \<^verbatim>\<open>currentTime\<close> and of the value \<^verbatim>\<open>Math.random()\<close> returned.
\<close>

definition slope_at :: "nat \<Rightarrow> real" where
  "slope_at currentTime = \<bar>sin (real currentTime * 0.3)\<bar> * 40"

definition stepHeight_at :: "nat \<Rightarrow> real" where
  "stepHeight_at currentTime = \<bar>cos (real currentTime * 0.4)\<bar> * 0.4"

definition roughness_of :: "real \<Rightarrow> real" where
  "roughness_of random = random * 0.08"

text \<open>The decision of line 44.\<close>

definition isPassable :: "real \<Rightarrow> real \<Rightarrow> real \<Rightarrow> AlgorithmConfig option \<Rightarrow> bool" where
  "isPassable slope stepHeight roughness config =
     ((slope < limitSlope config) \<and> (stepHeight < limitStep config)
        \<and> (roughness < limitRough config))"

text \<open>
  \<^verbatim>\<open>generateSensorData(mode, config)\<close>. The module variable \<^verbatim>\<open>currentTime\<close> is passed in and
  returned incremented; \<open>now\<close> is \<^verbatim>\<open>new Date().toLocaleTimeString()\<close>; \<open>rnd i\<close> is the value of
  the \<open>i\<close>-th call of \<^verbatim>\<open>Math.random()\<close> in evaluation order (ten calls).
\<close>

definition generateSensorData ::
  "RobotMode \<Rightarrow> AlgorithmConfig option \<Rightarrow> string \<Rightarrow> (nat \<Rightarrow> real) \<Rightarrow> nat \<Rightarrow> SensorData \<times> nat" where
  "generateSensorData mode config now rnd currentTime0 =
    (let currentTime = currentTime0 + 1;
         baseSignal = 0.4 + sin (real currentTime * 0.1) * 0.3;
         noise = (rnd 0 - 0.5) * 0.4;
         methaneRaw = max 0 (baseSignal + noise);
         methaneGNN = max 0 baseSignal;
         featureDensity = 50 + sin (real currentTime * 0.2) * 30 + rnd 1 * 10;
         slamRmse = max 0.02 ((100 / (featureDensity + 10)) * 0.05 + rnd 2 * 0.01);
         slope = slope_at currentTime;
         stepHeight = stepHeight_at currentTime;
         roughness = roughness_of (rnd 3);
         passable = isPassable slope stepHeight roughness config;
         hydraulicDiameter = 3 + sin (real currentTime * 0.05);
         tempSpike = (if rnd 4 > 0.95 then 12 else 0)
     in ([''timestamp'' \<mapsto> JStr now,
          ''methane'' \<mapsto> JNum (toFixed 3 methaneGNN),
          ''methaneRaw'' \<mapsto> JNum (toFixed 3 methaneRaw),
          ''temperature'' \<mapsto> JNum (24 + rnd 5 * 2 + tempSpike),
          ''humidity'' \<mapsto> JNum (85 + rnd 6 * 5),
          ''windSpeed'' \<mapsto> JNum (if mode = FLIGHT then 3.5 + rnd 7 else 0.5 + rnd 7),
          ''battery'' \<mapsto> JNum (max 0 (100 - real currentTime * 0.05)),
          ''wifiSignal'' \<mapsto> JNum (80 + rnd 8 * 20),
          ''obstacleDistance'' \<mapsto> JNum (2.5 + rnd 9 * 5),
          ''slamRmse'' \<mapsto> JNum (toFixed 3 slamRmse),
          ''featureDensity'' \<mapsto> JNum (real_of_int (round featureDensity)),
          ''hydraulicDiameter'' \<mapsto> JNum (toFixed 2 hydraulicDiameter),
          ''slope'' \<mapsto> JNum (toFixed 1 slope),
          ''stepHeight'' \<mapsto> JNum (toFixed 2 stepHeight),
          ''roughness'' \<mapsto> JNum (toFixed 3 roughness),
          ''traversable'' \<mapsto> JBool passable],
         currentTime))"

text \<open>\<^verbatim>\<open>generatePosition(mode)\<close> reads \<^verbatim>\<open>currentTime\<close> and does not change it.\<close>

definition generatePosition :: "RobotMode \<Rightarrow> nat \<Rightarrow> Position" where
  "generatePosition mode currentTime =
    (let angle = real currentTime * 0.05;
         x = startX + radius * cos angle;
         y = startY + radius * sin angle
     in \<lparr>pos_x = x, pos_y = y, pos_z = (if mode = FLIGHT then 1.5 else 0.2),
         heading = (angle * 180) / pi + 90\<rparr>)"

text \<open>
  \<^verbatim>\<open>generateInitialTrajectory()\<close>: the \<^verbatim>\<open>for\<close> loop with its counter \<open>i\<close> and the array
  \<open>points\<close> built so far; \<open>rnd i\<close> is the value \<^verbatim>\<open>Math.random()\<close> returns in iteration \<open>i\<close>.
\<close>

definition seedPoint :: "(nat \<Rightarrow> real) \<Rightarrow> nat \<Rightarrow> TrajectoryPoint" where
  "seedPoint rnd i =
    (let angle = real i * 0.1;
         x = startX + radius * cos angle;
         y = startY + radius * sin angle;
         risk = (if x > startX \<and> y < startY then 0.8 else 0.1)
     in \<lparr>pt_x = x, pt_y = y, riskLevel = JNum (risk + rnd i * 0.2), pt_timestamp = None\<rparr>)"

function trajectoryLoop :: "(nat \<Rightarrow> real) \<Rightarrow> nat \<Rightarrow> TrajectoryPoint list \<Rightarrow> TrajectoryPoint list" where
  "trajectoryLoop rnd i points =
     (if i < 100 then trajectoryLoop rnd (i + 1) (points @ [seedPoint rnd i]) else points)"
  by pat_completeness auto
termination
  by (relation "measure (\<lambda>(rnd, i, points). 100 - i)") auto

definition generateInitialTrajectory :: "(nat \<Rightarrow> real) \<Rightarrow> TrajectoryPoint list" where
  "generateInitialTrajectory rnd = trajectoryLoop rnd 0 []"

section \<open>services/WebSocketService.ts and the serial service\<close>

text \<open>
  The body of \<^verbatim>\<open>socket.onmessage\<close>. Its input is the outcome of \<^verbatim>\<open>JSON.parse(event.data)\<close>
  (\<open>None\<close>: the parser threw); the result is the fragment handed to \<^verbatim>\<open>onDataCallback\<close>, or
  \<open>None\<close> when the \<^verbatim>\<open>try\<close> block threw before the callback (a parse error, or a property
  read on \<^verbatim>\<open>null\<close>).
\<close>

definition onmessage :: "jsval option \<Rightarrow> string \<Rightarrow> obj option" where
  "onmessage parseResult now =
    (case parseResult of
       None \<Rightarrow> None
     | Some data \<Rightarrow>
         if data = JNull \<or> data = JUndefined then None
         else Some
           [''methane'' \<mapsto> js_or (get data ''gas'') (get data ''methane''),
            ''temperature'' \<mapsto> js_or (get data ''temp'') (get data ''temperature''),
            ''humidity'' \<mapsto> js_or (get data ''hum'') (get data ''humidity''),
            ''battery'' \<mapsto> js_or (get data ''bat'') (get data ''battery''),
            ''wifiSignal'' \<mapsto> js_or (get data ''rssi'') (get data ''wifi''),
            ''obstacleDistance'' \<mapsto> js_or (get data ''dist'') (get data ''obstacleDistance''),
            ''windSpeed'' \<mapsto> js_or (get data ''wind'') (get data ''windSpeed''),
            ''timestamp'' \<mapsto> JStr now])"

text \<open>
  \<^verbatim>\<open>SerialService.parseData(rawData)\<close>. The regular-expression match and \<^verbatim>\<open>JSON.parse\<close> are
  the run time's; their joint outcome is the input (\<open>None\<close>: no \<^verbatim>\<open>{...}\<close> in the chunk, or
  the parser threw). The result \<open>None\<close> is the \<^verbatim>\<open>null\<close> the function returns.
\<close>

definition parseData :: "jsval option \<Rightarrow> string \<Rightarrow> obj option" where
  "parseData parseResult now =
    (case parseResult of
       None \<Rightarrow> None
     | Some parsed \<Rightarrow>
         if parsed = JNull \<or> parsed = JUndefined then None
         else Some
           [''methane'' \<mapsto> js_or (js_or (get parsed ''methane'') (get parsed ''m'')) (JNum 0),
            ''temperature'' \<mapsto> js_or (js_or (get parsed ''temperature'') (get parsed ''t'')) (JNum 0),
            ''humidity'' \<mapsto> js_or (js_or (get parsed ''humidity'') (get parsed ''h'')) (JNum 0),
            ''battery'' \<mapsto> js_or (js_or (get parsed ''battery'') (get parsed ''b'')) (JNum 0),
            ''wifiSignal'' \<mapsto> js_or (js_or (get parsed ''rssi'') (get parsed ''s'')) (JNum 0),
            ''timestamp'' \<mapsto> JStr now])"

section \<open>components/ConfigModal.tsx and the App component\<close>

text \<open>
  The state of \<^verbatim>\<open>App\<close> that the data path uses, with the module variable \<^verbatim>\<open>currentTime\<close> of
  the mock service. \<open>sensorData\<close> is the telemetry history and \<open>history\<close> the trajectory, as
  the source names them. \<open>loopSensorData\<close> is the \<^verbatim>\<open>sensorData\<close> array that the closure of the
  running data-loop interval holds: the effect that creates the interval runs again only
  when one of its dependencies changes. \<open>configObject\<close> is the identity of the object held
  in \<^verbatim>\<open>algoConfig\<close>: the dependency array compares that object by identity, not by its
  values.
\<close>

record AppState =
  mode :: RobotMode
  connectionStatus :: ConnectionStatus
  isWsConnected :: bool
  algoConfig :: AlgorithmConfig
  configObject :: nat
  isConfigModalOpen :: bool
  sensorData :: "SensorData list"
  position :: Position
  history :: "TrajectoryPoint list"
  currentTime :: nat
  loopSensorData :: "SensorData list"

text \<open>\<^verbatim>\<open>xs.slice(-n)\<close>: the last \<open>n\<close> elements, all of them when there are fewer.\<close>

definition slice_last :: "nat \<Rightarrow> 'a list \<Rightarrow> 'a list" where
  "slice_last n xs = drop (length xs - n) xs"

text \<open>The object literal of \<^verbatim>\<open>updateSensorState\<close> before the spread.\<close>

definition defaultData :: "string \<Rightarrow> SensorData" where
  "defaultData now =
     [''timestamp'' \<mapsto> JStr now,
      ''methane'' \<mapsto> JNum 0,
      ''methaneRaw'' \<mapsto> JNum 0,
      ''temperature'' \<mapsto> JNum 20,
      ''humidity'' \<mapsto> JNum 50,
      ''windSpeed'' \<mapsto> JNum 0,
      ''battery'' \<mapsto> JNum 0,
      ''wifiSignal'' \<mapsto> JNum 0,
      ''obstacleDistance'' \<mapsto> JNum 0,
      ''slamRmse'' \<mapsto> JNum 0,
      ''featureDensity'' \<mapsto> JNum 0,
      ''hydraulicDiameter'' \<mapsto> JNum 0,
      ''slope'' \<mapsto> JNum 0,
      ''stepHeight'' \<mapsto> JNum 0,
      ''roughness'' \<mapsto> JNum 0,
      ''traversable'' \<mapsto> JBool True]"

text \<open>\<^verbatim>\<open>{ ...literal, ...newData }\<close>: a key of \<open>newData\<close> wins, whatever its value.\<close>

definition completeData :: "string \<Rightarrow> obj \<Rightarrow> SensorData" where
  "completeData now newData = defaultData now ++ newData"

definition updateSensorState :: "string \<Rightarrow> obj \<Rightarrow> AppState \<Rightarrow> AppState" where
  "updateSensorState now newData s =
     s\<lparr>sensorData := slice_last 49 (sensorData s) @ [completeData now newData]\<rparr>"

text \<open>
  \<^verbatim>\<open>handleSerialData(rawData)\<close>; \<open>now\<close> is the clock read by \<^verbatim>\<open>parseData\<close>, \<open>now'\<close> the one
  read by \<^verbatim>\<open>updateSensorState\<close>. The settings view is given this handler as \<^verbatim>\<open>onRawData\<close>
  and does not call it; the statements below hold whether or not it is ever called.
\<close>

definition handleSerialData :: "jsval option \<Rightarrow> string \<Rightarrow> string \<Rightarrow> AppState \<Rightarrow> AppState" where
  "handleSerialData parseResult now now' s =
    (case parseData parseResult now of
       None \<Rightarrow> s
     | Some parsed \<Rightarrow>
         if field parsed ''methane'' \<noteq> JUndefined then updateSensorState now' parsed s else s)"

text \<open>A message on the socket: \<^verbatim>\<open>onmessage\<close>, then the callback set by \<^verbatim>\<open>setOnData\<close>.\<close>

definition handleWsMessage :: "jsval option \<Rightarrow> string \<Rightarrow> string \<Rightarrow> AppState \<Rightarrow> AppState" where
  "handleWsMessage parseResult now now' s =
    (case onmessage parseResult now of
       None \<Rightarrow> s
     | Some data \<Rightarrow> updateSensorState now' data s)"

definition isConnected :: "AppState \<Rightarrow> bool" where
  "isConnected s = (connectionStatus s = CONNECTED \<or> isWsConnected s)"

text \<open>The interval body of the connected branch of the data loop.\<close>

definition externalTick :: "string \<Rightarrow> AppState \<Rightarrow> AppState" where
  "externalTick now s =
    (let newPos = generatePosition (mode s) (currentTime s);
         latestMethane =
           (case loopSensorData s of
              [] \<Rightarrow> JNum 0
            | r # rs \<Rightarrow> field (last (loopSensorData s)) ''methane'');
         newPoint = \<lparr>pt_x = pos_x newPos, pt_y = pos_y newPos, riskLevel = latestMethane,
                      pt_timestamp = Some (JStr now)\<rparr>
     in s\<lparr>position := newPos, history := slice_last 99 (history s) @ [newPoint]\<rparr>)"

text \<open>The interval body of the disconnected branch: the full simulation.\<close>

definition syntheticTick :: "string \<Rightarrow> (nat \<Rightarrow> real) \<Rightarrow> AppState \<Rightarrow> AppState" where
  "syntheticTick now rnd s =
    (let (newData, t) = generateSensorData (mode s) (Some (algoConfig s)) now rnd (currentTime s);
         newPos = generatePosition (mode s) t;
         newPoint = \<lparr>pt_x = pos_x newPos, pt_y = pos_y newPos,
                      riskLevel = field newData ''methane'',
                      pt_timestamp = Some (field newData ''timestamp'')\<rparr>
     in s\<lparr>currentTime := t,
          sensorData := slice_last 49 (sensorData s) @ [newData],
          position := newPos,
          history := slice_last 99 (history s) @ [newPoint]\<rparr>)"

text \<open>
  One firing of the interval. \<^verbatim>\<open>mode\<close>, the two connection flags and \<^verbatim>\<open>algoConfig\<close> are
  dependencies of the effect, so the closure that runs holds their current values.
\<close>

definition dataLoopTick :: "string \<Rightarrow> (nat \<Rightarrow> real) \<Rightarrow> AppState \<Rightarrow> AppState" where
  "dataLoopTick now rnd s = (if isConnected s then externalTick now s else syntheticTick now rnd s)"

text \<open>
  \<^verbatim>\<open>handleSave\<close> of the modal with \<^verbatim>\<open>onSave = setAlgoConfig\<close>, then \<^verbatim>\<open>onClose\<close>, for a
  \<^verbatim>\<open>localConfig\<close> that is an object of its own, as every slider move and the reset button
  create one: the state then holds a new object. (When \<^verbatim>\<open>localConfig\<close> is the active object
  itself, \<^verbatim>\<open>setAlgoConfig\<close> changes nothing and only the modal closes: see \<open>clickSave\<close>.)
\<close>

definition handleSave :: "AlgorithmConfig \<Rightarrow> AppState \<Rightarrow> AppState" where
  "handleSave localConfig s =
     s\<lparr>algoConfig := localConfig, configObject := Suc (configObject s),
       isConfigModalOpen := False\<rparr>"

text \<open>
  The dependency array of the data-loop effect, and what a render does after an update
  that took the state from \<open>s\<close> to \<open>s'\<close>: when a dependency changed, the interval is
  created again and its closure sees the current \<^verbatim>\<open>sensorData\<close>. The enumeration values, the
  flag and the length are compared by value, the configuration by the identity of its
  object.
\<close>

definition dataLoopDeps ::
  "AppState \<Rightarrow> RobotMode \<times> ConnectionStatus \<times> bool \<times> nat \<times> nat" where
  "dataLoopDeps s =
     (mode s, connectionStatus s, isWsConnected s, length (sensorData s), configObject s)"

definition render :: "AppState \<Rightarrow> AppState \<Rightarrow> AppState" where
  "render s s' =
     (if dataLoopDeps s' = dataLoopDeps s then s' else s'\<lparr>loopSensorData := sensorData s'\<rparr>)"

text \<open>What can happen to the running application.\<close>

datatype Event =
    Tick string "nat \<Rightarrow> real"
  | WsMessage "jsval option" string string
  | SerialData "jsval option" string string
  | Save AlgorithmConfig
  | SetMode RobotMode
  | SetConnectionStatus ConnectionStatus
  | SetWsConnected bool

fun handle :: "Event \<Rightarrow> AppState \<Rightarrow> AppState" where
  "handle (Tick now rnd) s = dataLoopTick now rnd s"
| "handle (WsMessage parseResult now now') s = handleWsMessage parseResult now now' s"
| "handle (SerialData parseResult now now') s = handleSerialData parseResult now now' s"
| "handle (Save localConfig) s = handleSave localConfig s"
| "handle (SetMode m) s = s\<lparr>mode := m\<rparr>"
| "handle (SetConnectionStatus c) s = s\<lparr>connectionStatus := c\<rparr>"
| "handle (SetWsConnected b) s = s\<lparr>isWsConnected := b\<rparr>"

definition step :: "Event \<Rightarrow> AppState \<Rightarrow> AppState" where
  "step e s = render s (handle e s)"

fun run :: "Event list \<Rightarrow> AppState \<Rightarrow> AppState" where
  "run [] s = s"
| "run (e # es) s = run es (step e s)"

text \<open>The \<^verbatim>\<open>useState\<close> initial values; \<open>rnd\<close> feeds the seed trajectory.\<close>

definition initialState :: "(nat \<Rightarrow> real) \<Rightarrow> AppState" where
  "initialState rnd =
    \<lparr>mode = TRACK, connectionStatus = DISCONNECTED, isWsConnected = False,
     algoConfig = \<lparr>maxSlope = 35, maxStepHeight = 0.32, maxRoughness = 0.05\<rparr>,
     configObject = 0, isConfigModalOpen = False, sensorData = [],
     position = \<lparr>pos_x = 0, pos_y = 0, pos_z = 0, heading = 0\<rparr>,
     history = generateInitialTrajectory rnd, currentTime = 0, loopSensorData = []\<rparr>"

section \<open>The configuration modal with its sliders\<close>

text \<open>
  The value an \<^verbatim>\<open><input type="range">\<close> with the given \<^verbatim>\<open>min\<close>, \<^verbatim>\<open>max\<close> and \<^verbatim>\<open>step\<close> reports
  in \<^verbatim>\<open>e.target.value\<close> when the position \<open>v\<close> is asked of it (the value sanitization of
  the browser): a position beyond a bound becomes that bound, any other one the nearest
  point of the step grid that starts at \<^verbatim>\<open>min\<close>, the upper one at a tie.
\<close>

definition rangeValue :: "real \<Rightarrow> real \<Rightarrow> real \<Rightarrow> real \<Rightarrow> real" where
  "rangeValue lo hi stp v =
     (if v < lo then lo
      else if hi < v then hi
      else lo + stp * real_of_int (round ((v - lo) / stp)))"

text \<open>
  The application together with the state of \<^verbatim>\<open>ConfigModal\<close>: its \<^verbatim>\<open>localConfig\<close>, and whether
  that object is the active configuration object itself (it is after the synchronizing
  effect and after a save; a slider move or a reset puts a new object there).
\<close>

record UiState =
  app :: AppState
  localConfig :: AlgorithmConfig
  localIsActive :: bool

text \<open>
  \<^verbatim>\<open>onOpenConfig\<close> of the header, and the effect of the modal that runs when \<^verbatim>\<open>isOpen\<close>
  becomes true: \<^verbatim>\<open>setLocalConfig(config)\<close>.
\<close>

definition openConfig :: "UiState \<Rightarrow> UiState" where
  "openConfig u =
     (if isConfigModalOpen (app u) then u
      else u\<lparr>app := (app u)\<lparr>isConfigModalOpen := True\<rparr>,
             localConfig := algoConfig (app u), localIsActive := True\<rparr>)"

definition onClose :: "UiState \<Rightarrow> UiState" where
  "onClose u = u\<lparr>app := (app u)\<lparr>isConfigModalOpen := False\<rparr>\<rparr>"

text \<open>The three \<^verbatim>\<open>onChange\<close> handlers, each behind its range input.\<close>

definition changeMaxSlope :: "real \<Rightarrow> UiState \<Rightarrow> UiState" where
  "changeMaxSlope v u =
     u\<lparr>localConfig := (localConfig u)\<lparr>maxSlope := rangeValue 10 60 1 v\<rparr>,
       localIsActive := False\<rparr>"

definition changeMaxStepHeight :: "real \<Rightarrow> UiState \<Rightarrow> UiState" where
  "changeMaxStepHeight v u =
     u\<lparr>localConfig := (localConfig u)\<lparr>maxStepHeight := rangeValue 0.1 0.8 0.01 v\<rparr>,
       localIsActive := False\<rparr>"

definition changeMaxRoughness :: "real \<Rightarrow> UiState \<Rightarrow> UiState" where
  "changeMaxRoughness v u =
     u\<lparr>localConfig := (localConfig u)\<lparr>maxRoughness := rangeValue 0.01 0.2 0.005 v\<rparr>,
       localIsActive := False\<rparr>"

definition handleReset :: "UiState \<Rightarrow> UiState" where
  "handleReset u =
     u\<lparr>localConfig := \<lparr>maxSlope = 35, maxStepHeight = 0.32, maxRoughness = 0.05\<rparr>,
       localIsActive := False\<rparr>"

text \<open>
  The save button. With the active object itself in \<^verbatim>\<open>localConfig\<close>, \<^verbatim>\<open>setAlgoConfig\<close>
  receives the object the state already holds and only \<^verbatim>\<open>onClose\<close> has an effect; otherwise
  it is \<open>handleSave\<close> above, followed by the render.
\<close>

definition clickSave :: "UiState \<Rightarrow> UiState" where
  "clickSave u =
     (if localIsActive u then u\<lparr>app := (app u)\<lparr>isConfigModalOpen := False\<rparr>\<rparr>
      else u\<lparr>app := step (Save (localConfig u)) (app u), localIsActive := True\<rparr>)"

text \<open>
  What the operator and the environment can do. The modal renders nothing while it is
  closed, so its controls act only while it is open.
\<close>

datatype UiEvent =
    OpenConfig
  | CloseConfig
  | ChangeMaxSlope real
  | ChangeMaxStepHeight real
  | ChangeMaxRoughness real
  | ClickReset
  | ClickSave
  | AppEvent Event

fun modalEvent :: "UiEvent \<Rightarrow> UiState \<Rightarrow> UiState" where
  "modalEvent CloseConfig u = onClose u"
| "modalEvent (ChangeMaxSlope v) u = changeMaxSlope v u"
| "modalEvent (ChangeMaxStepHeight v) u = changeMaxStepHeight v u"
| "modalEvent (ChangeMaxRoughness v) u = changeMaxRoughness v u"
| "modalEvent ClickReset u = handleReset u"
| "modalEvent ClickSave u = clickSave u"
| "modalEvent ev u = u"

fun uiStep :: "UiEvent \<Rightarrow> UiState \<Rightarrow> UiState" where
  "uiStep OpenConfig u = openConfig u"
| "uiStep (AppEvent e) u = u\<lparr>app := step e (app u)\<rparr>"
| "uiStep ev u = (if isConfigModalOpen (app u) then modalEvent ev u else u)"

fun uiRun :: "UiEvent list \<Rightarrow> UiState \<Rightarrow> UiState" where
  "uiRun [] u = u"
| "uiRun (ev # evs) u = uiRun evs (uiStep ev u)"

text \<open>At the start the modal holds the configuration object of the application.\<close>

definition uiInitial :: "(nat \<Rightarrow> real) \<Rightarrow> UiState" where
  "uiInitial rnd =
     \<lparr>app = initialState rnd, localConfig = algoConfig (initialState rnd), localIsActive = True\<rparr>"

section \<open>Notions used in the statements\<close>

text \<open>The bounds of the three sliders of the modal (\<^verbatim>\<open>min\<close> and \<^verbatim>\<open>max\<close> of each input).\<close>

definition withinSliderRanges :: "AlgorithmConfig \<Rightarrow> bool" where
  "withinSliderRanges c =
     (10 \<le> maxSlope c \<and> maxSlope c \<le> 60
      \<and> 0.1 \<le> maxStepHeight c \<and> maxStepHeight c \<le> 0.8
      \<and> 0.01 \<le> maxRoughness c \<and> maxRoughness c \<le> 0.2)"

text \<open>A value that is a number of the closed interval from 0 to 1.\<close>

fun unitInterval :: "jsval \<Rightarrow> bool" where
  "unitInterval (JNum r) = (0 \<le> r \<and> r \<le> 1)"
| "unitInterval v = False"

text \<open>A telemetry record in which every key of the interface has a value other than \<^verbatim>\<open>undefined\<close>.\<close>

definition completeRecord :: "SensorData \<Rightarrow> bool" where
  "completeRecord r = list_all (\<lambda>k. field r k \<noteq> JUndefined) SensorData_keys"

text \<open>
  The bounded buffer as the specification words it: an append, with the oldest entry
  dropped first when the buffer is full and the remaining entries left in their order.
\<close>

definition fifoPush :: "nat \<Rightarrow> 'a list \<Rightarrow> 'a \<Rightarrow> 'a list" where
  "fifoPush cap xs x = (if length xs < cap then xs @ [x] else tl xs @ [x])"

text \<open>The firings of the interval.\<close>

fun isTick :: "Event \<Rightarrow> bool" where
  "isTick (Tick now rnd) = True"
| "isTick e = False"

text \<open>The events that deliver a transport fragment.\<close>

fun fromTransport :: "Event \<Rightarrow> bool" where
  "fromTransport (WsMessage parseResult now now') = True"
| "fromTransport (SerialData parseResult now now') = True"
| "fromTransport e = False"

text \<open>
  The configuration last saved in a sequence of events, \<open>c\<close> when it holds no save.
\<close>

fun activeConfig :: "Event list \<Rightarrow> AlgorithmConfig \<Rightarrow> AlgorithmConfig" where
  "activeConfig [] c = c"
| "activeConfig (Save saved # es) c = activeConfig es saved"
| "activeConfig (e # es) c = activeConfig es c"

text \<open>The events that save a configuration.\<close>

fun isSave :: "Event \<Rightarrow> bool" where
  "isSave (Save saved) = True"
| "isSave e = False"

text \<open>
  The events of the operator other than a save that bypasses the modal: \<^verbatim>\<open>setAlgoConfig\<close> is
  handed to the modal only, so a save arises from its button.
\<close>

fun viaModal :: "UiEvent \<Rightarrow> bool" where
  "viaModal (AppEvent e) = (\<not> isSave e)"
| "viaModal ev = True"

definition uiInv :: "UiState \<Rightarrow> bool" where
  "uiInv u = (withinSliderRanges (algoConfig (app u)) \<and> withinSliderRanges (localConfig u))"

text \<open>
  The events whose merged record, if they append one, has a gas value in the unit
  interval.
\<close>

fun gasInUnit :: "Event \<Rightarrow> bool" where
  "gasInUnit (WsMessage parseResult now now') =
     (case onmessage parseResult now of
        None \<Rightarrow> True
      | Some frag \<Rightarrow> unitInterval (field (completeData now' frag) ''methane''))"
| "gasInUnit (SerialData parseResult now now') =
     (case parseData parseResult now of
        None \<Rightarrow> True
      | Some frag \<Rightarrow> unitInterval (field (completeData now' frag) ''methane''))"
| "gasInUnit e = True"

text \<open>The fragment of the socket message \<^verbatim>\<open>{"gas": 0.2}\<close> received at 10:00:00.\<close>

definition wsFragment :: obj where
  "wsFragment =
     [''methane'' \<mapsto> JNum 0.2, ''temperature'' \<mapsto> JUndefined, ''humidity'' \<mapsto> JUndefined,
      ''battery'' \<mapsto> JUndefined, ''wifiSignal'' \<mapsto> JUndefined,
      ''obstacleDistance'' \<mapsto> JUndefined, ''windSpeed'' \<mapsto> JUndefined,
      ''timestamp'' \<mapsto> JStr ''10:00:00'']"

text \<open>The fragment of the serial chunk \<^verbatim>\<open>{"m": 0.2}\<close> received at 10:00:00.\<close>

definition serialFragment :: obj where
  "serialFragment =
     [''methane'' \<mapsto> JNum 0.2, ''temperature'' \<mapsto> JNum 0, ''humidity'' \<mapsto> JNum 0,
      ''battery'' \<mapsto> JNum 0, ''wifiSignal'' \<mapsto> JNum 0, ''timestamp'' \<mapsto> JStr ''10:00:00'']"

text \<open>Lists of records and of points whose gas value, respectively risk, is in the unit interval.\<close>

definition methaneInUnit :: "SensorData list \<Rightarrow> bool" where
  "methaneInUnit rs = list_all (\<lambda>r. unitInterval (field r ''methane'')) rs"

definition riskInUnit :: "TrajectoryPoint list \<Rightarrow> bool" where
  "riskInUnit ps = list_all (\<lambda>p. unitInterval (riskLevel p)) ps"

definition unitInv :: "AppState \<Rightarrow> bool" where
  "unitInv s =
     (methaneInUnit (sensorData s) \<and> methaneInUnit (loopSensorData s) \<and> riskInUnit (history s))"

text \<open>
  A state whose telemetry history holds one complete record with a gas value of 0.5 and a
  battery level of 80, built by \<^verbatim>\<open>updateSensorState\<close> itself.
\<close>

definition priorState :: AppState where
  "priorState =
     updateSensorState ''10:00:00'' [''methane'' \<mapsto> JNum 0.5, ''battery'' \<mapsto> JNum 80]
       (initialState (\<lambda>i. 0))"

declare trajectoryLoop.simps [simp del]

section \<open>Bounded buffers\<close>

lemma slice_last_length: "length (slice_last n xs @ [x]) \<le> Suc n"
  by (simp add: slice_last_def)

lemma slice_last_short: "length xs \<le> n \<Longrightarrow> slice_last n xs = xs"
  by (simp add: slice_last_def)

lemma slice_last_full: "length xs = Suc n \<Longrightarrow> slice_last n xs = tl xs"
  by (simp add: slice_last_def drop_Suc)

lemma list_all_slice_last: "list_all P xs \<Longrightarrow> list_all P (slice_last n xs)"
  by (auto simp: slice_last_def list_all_iff dest: in_set_dropD)

lemma slice_last_fifoPush:
  "length xs \<le> Suc n \<Longrightarrow> slice_last n xs @ [x] = fifoPush (Suc n) xs x"
  by (cases "length xs = Suc n") (simp_all add: fifoPush_def slice_last_short slice_last_full)

section \<open>The seed trajectory\<close>

lemma trajectoryLoop_eq:
  "i \<le> 100 \<Longrightarrow> trajectoryLoop rnd i points = points @ map (seedPoint rnd) [i..<100]"
proof (induction rnd i points rule: trajectoryLoop.induct)
  case (1 rnd i points)
  show ?case
  proof (cases "i < 100")
    case True
    then have "[i..<100] = i # [i + 1..<100]" by (simp add: upt_rec)
    with True "1.IH" show ?thesis by (subst trajectoryLoop.simps) simp
  next
    case False
    with "1.prems" show ?thesis by (subst trajectoryLoop.simps) simp
  qed
qed

lemma generateInitialTrajectory_eq:
  "generateInitialTrajectory rnd = map (seedPoint rnd) [0..<100]"
  by (simp add: generateInitialTrajectory_def trajectoryLoop_eq)

lemma length_generateInitialTrajectory: "length (generateInitialTrajectory rnd) = 100"
  by (simp add: generateInitialTrajectory_eq)

lemma seedPoint_unit:
  "0 \<le> rnd i \<Longrightarrow> rnd i \<le> 1 \<Longrightarrow> unitInterval (riskLevel (seedPoint rnd i))"
  by (simp add: seedPoint_def Let_def)

section \<open>The synthesizer\<close>

lemma isPassable_Some:
  "isPassable s h r (Some c) = (s < maxSlope c \<and> h < maxStepHeight c \<and> r < maxRoughness c)"
  by (simp add: isPassable_def limitSlope_def limitStep_def limitRough_def)

lemma generateSensorData_traversable:
  "fst (generateSensorData m config now rnd t) ''traversable'' =
     Some (JBool (isPassable (slope_at (t + 1)) (stepHeight_at (t + 1)) (roughness_of (rnd 3)) config))"
  by (simp add: generateSensorData_def Let_def)

lemma toFixed_unit:
  assumes "0 \<le> v" "v \<le> 1"
  shows "0 \<le> toFixed d v \<and> toFixed d v \<le> 1"
proof -
  have "round (0::real) \<le> round (v * 10 ^ d)"
    using assms(1) by (intro round_mono) simp
  then have lo: "0 \<le> round (v * 10 ^ d)" by simp
  have "v * 10 ^ d \<le> real_of_int (10 ^ d)"
    using assms(2) by (simp add: mult_left_le_one_le)
  then have "round (v * 10 ^ d) \<le> round (real_of_int (10 ^ d))"
    by (rule round_mono)
  then have hi: "round (v * 10 ^ d) \<le> 10 ^ d"
    by (simp only: round_of_int)
  from hi have "real_of_int (round (v * 10 ^ d)) \<le> 10 ^ d"
    by (metis of_int_le_iff of_int_numeral of_int_power)
  with lo show ?thesis
    by (simp add: toFixed_def divide_le_eq_1)
qed

lemma generateSensorData_methane:
  "unitInterval (field (fst (generateSensorData m config now rnd t)) ''methane'')"
proof -
  define b where "b = max 0 (0.4 + sin (real (t + 1) * 0.1) * 0.3)"
  have "sin (real (t + 1) * 0.1) \<le> 1" by (rule sin_le_one)
  then have "0.4 + sin (real (t + 1) * 0.1) * 0.3 \<le> 1" by linarith
  then have "0 \<le> b \<and> b \<le> 1" unfolding b_def by (simp add: max_def)
  then have "0 \<le> toFixed 3 b \<and> toFixed 3 b \<le> 1" by (simp add: toFixed_unit)
  moreover have "field (fst (generateSensorData m config now rnd t)) ''methane'' = JNum (toFixed 3 b)"
    by (simp add: generateSensorData_def Let_def field_def b_def)
  ultimately show ?thesis by simp
qed

section \<open>Transport fragments\<close>

lemma js_or_defined: "b \<noteq> JUndefined \<Longrightarrow> js_or a b \<noteq> JUndefined"
  by (cases a) (simp_all add: js_or_def)

lemma onmessage_Some:
  "onmessage pr now = Some frag \<Longrightarrow>
   \<exists>data. pr = Some data \<and> frag =
           [''methane'' \<mapsto> js_or (get data ''gas'') (get data ''methane''),
            ''temperature'' \<mapsto> js_or (get data ''temp'') (get data ''temperature''),
            ''humidity'' \<mapsto> js_or (get data ''hum'') (get data ''humidity''),
            ''battery'' \<mapsto> js_or (get data ''bat'') (get data ''battery''),
            ''wifiSignal'' \<mapsto> js_or (get data ''rssi'') (get data ''wifi''),
            ''obstacleDistance'' \<mapsto> js_or (get data ''dist'') (get data ''obstacleDistance''),
            ''windSpeed'' \<mapsto> js_or (get data ''wind'') (get data ''windSpeed''),
            ''timestamp'' \<mapsto> JStr now]"
  unfolding onmessage_def by (cases pr) (simp_all split: if_splits)

lemma parseData_Some:
  "parseData pr now = Some frag \<Longrightarrow>
   \<exists>parsed. pr = Some parsed \<and> frag =
           [''methane'' \<mapsto> js_or (js_or (get parsed ''methane'') (get parsed ''m'')) (JNum 0),
            ''temperature'' \<mapsto> js_or (js_or (get parsed ''temperature'') (get parsed ''t'')) (JNum 0),
            ''humidity'' \<mapsto> js_or (js_or (get parsed ''humidity'') (get parsed ''h'')) (JNum 0),
            ''battery'' \<mapsto> js_or (js_or (get parsed ''battery'') (get parsed ''b'')) (JNum 0),
            ''wifiSignal'' \<mapsto> js_or (js_or (get parsed ''rssi'') (get parsed ''s'')) (JNum 0),
            ''timestamp'' \<mapsto> JStr now]"
  unfolding parseData_def by (cases pr) (simp_all split: if_splits)

lemma onmessage_geometry:
  "onmessage pr now = Some frag \<Longrightarrow>
     frag ''slope'' = None \<and> frag ''stepHeight'' = None \<and> frag ''roughness'' = None
     \<and> frag ''traversable'' = None"
  by (drule onmessage_Some) (erule exE, simp)

lemma parseData_geometry:
  "parseData pr now = Some frag \<Longrightarrow>
     frag ''slope'' = None \<and> frag ''stepHeight'' = None \<and> frag ''roughness'' = None
     \<and> frag ''traversable'' = None"
  by (drule parseData_Some) (erule exE, simp)

text \<open>
  The guard of \<^verbatim>\<open>handleSerialData\<close> never fails: \<^verbatim>\<open>parseData\<close> ends every chain of
  \<^verbatim>\<open>||\<close> with 0.
\<close>

lemma parseData_methane:
  "parseData pr now = Some frag \<Longrightarrow> field frag ''methane'' \<noteq> JUndefined"
  by (drule parseData_Some) (erule exE, simp add: field_def js_or_defined)

lemma completeData_geometry:
  assumes "frag ''slope'' = None \<and> frag ''stepHeight'' = None \<and> frag ''roughness'' = None
     \<and> frag ''traversable'' = None"
  shows "field (completeData now frag) ''slope'' = JNum 0
       \<and> field (completeData now frag) ''stepHeight'' = JNum 0
       \<and> field (completeData now frag) ''roughness'' = JNum 0
       \<and> field (completeData now frag) ''traversable'' = JBool True"
  using assms by (simp add: completeData_def field_def map_add_def defaultData_def)

text \<open>A record built from a fragment of the serial parser has a value for every key.\<close>

lemma serial_records_complete:
  assumes "parseData pr now = Some frag"
  shows "completeRecord (completeData now' frag)"
proof -
  from parseData_Some [OF assms] obtain parsed where
    frag: "frag =
           [''methane'' \<mapsto> js_or (js_or (get parsed ''methane'') (get parsed ''m'')) (JNum 0),
            ''temperature'' \<mapsto> js_or (js_or (get parsed ''temperature'') (get parsed ''t'')) (JNum 0),
            ''humidity'' \<mapsto> js_or (js_or (get parsed ''humidity'') (get parsed ''h'')) (JNum 0),
            ''battery'' \<mapsto> js_or (js_or (get parsed ''battery'') (get parsed ''b'')) (JNum 0),
            ''wifiSignal'' \<mapsto> js_or (js_or (get parsed ''rssi'') (get parsed ''s'')) (JNum 0),
            ''timestamp'' \<mapsto> JStr now]"
    by blast
  show ?thesis
    unfolding frag completeRecord_def SensorData_keys_def
    by (simp add: completeData_def defaultData_def field_def map_add_def js_or_defined)
qed

section \<open>Steps of the application\<close>

lemma updateSensorState_last [simp]:
  "last (sensorData (updateSensorState now frag s)) = completeData now frag"
  by (simp add: updateSensorState_def)

lemma sensorData_render [simp]: "sensorData (render s s') = sensorData s'"
  by (simp add: render_def)

lemma history_render [simp]: "history (render s s') = history s'"
  by (simp add: render_def)

lemma isConnected_render [simp]: "isConnected (render s s') = isConnected s'"
  by (simp add: render_def isConnected_def)

lemma step_Save_fields [simp]:
  "algoConfig (step (Save c) s) = c"
  "currentTime (step (Save c) s) = currentTime s"
  "isConnected (step (Save c) s) = isConnected s"
  by (simp_all add: step_def handleSave_def render_def isConnected_def)



lemma syntheticTick_buffers:
  "sensorData (syntheticTick now rnd s) =
     slice_last 49 (sensorData s)
       @ [fst (generateSensorData (mode s) (Some (algoConfig s)) now rnd (currentTime s))]"
  "history (syntheticTick now rnd s) =
     slice_last 99 (history s)
       @ [\<lparr>pt_x = pos_x (generatePosition (mode s) (currentTime s + 1)),
           pt_y = pos_y (generatePosition (mode s) (currentTime s + 1)),
           riskLevel = field (fst (generateSensorData (mode s) (Some (algoConfig s)) now rnd
                                (currentTime s))) ''methane'',
           pt_timestamp = Some (JStr now)\<rparr>]"
  by (simp_all add: syntheticTick_def generateSensorData_def Let_def field_def)

lemma externalTick_buffers:
  "sensorData (externalTick now s) = sensorData s"
  "history (externalTick now s) =
     slice_last 99 (history s)
       @ [\<lparr>pt_x = pos_x (generatePosition (mode s) (currentTime s)),
           pt_y = pos_y (generatePosition (mode s) (currentTime s)),
           riskLevel = (case loopSensorData s of [] \<Rightarrow> JNum 0
                        | r # rs \<Rightarrow> field (last (loopSensorData s)) ''methane''),
           pt_timestamp = Some (JStr now)\<rparr>]"
  by (simp_all add: externalTick_def Let_def)

lemma sensorData_handle_cases:
  "sensorData (handle e s) = sensorData s
   \<or> (\<exists>r. sensorData (handle e s) = slice_last 49 (sensorData s) @ [r])"
  by (cases e)
    (auto simp: dataLoopTick_def externalTick_def syntheticTick_def Let_def handleWsMessage_def
       handleSerialData_def updateSensorState_def handleSave_def split: option.splits prod.splits)

lemma history_handle_cases:
  "history (handle e s) = history s
   \<or> (\<exists>p. history (handle e s) = slice_last 99 (history s) @ [p])"
  by (cases e)
    (auto simp: dataLoopTick_def externalTick_def syntheticTick_def Let_def handleWsMessage_def
       handleSerialData_def updateSensorState_def handleSave_def split: option.splits prod.splits)

lemma step_bounds:
  assumes "length (sensorData s) \<le> 50" "length (history s) \<le> 100"
  shows "length (sensorData (step e s)) \<le> 50 \<and> length (history (step e s)) \<le> 100"
proof -
  have "length (sensorData (handle e s)) \<le> 50"
    using sensorData_handle_cases [of e s] assms(1) slice_last_length [of 49 "sensorData s"]
    by auto
  moreover have "length (history (handle e s)) \<le> 100"
    using history_handle_cases [of e s] assms(2) slice_last_length [of 99 "history s"]
    by auto
  ultimately show ?thesis by (simp add: step_def)
qed

lemma run_bounds:
  "length (sensorData s) \<le> 50 \<Longrightarrow> length (history s) \<le> 100 \<Longrightarrow>
   length (sensorData (run evs s)) \<le> 50 \<and> length (history (run evs s)) \<le> 100"
proof (induction evs arbitrary: s)
  case Nil
  then show ?case by simp
next
  case (Cons e evs)
  then show ?case using step_bounds [of s e] by simp
qed

lemma initialState_bounds:
  "length (sensorData (initialState rnd)) \<le> 50 \<and> length (history (initialState rnd)) \<le> 100"
  by (simp add: initialState_def length_generateInitialTrajectory)

lemma algoConfig_step:
  "algoConfig (step e s) = activeConfig [e] (algoConfig s)"
  by (cases e)
    (simp_all add: step_def render_def handleSave_def dataLoopTick_def externalTick_def
       syntheticTick_def Let_def handleWsMessage_def handleSerialData_def updateSensorState_def
       split: option.splits prod.splits)

lemma activeConfig_Cons: "activeConfig (e # es) c = activeConfig es (activeConfig [e] c)"
  by (cases e) simp_all

lemma algoConfig_run: "algoConfig (run evs s) = activeConfig evs (algoConfig s)"
proof (induction evs arbitrary: s)
  case Nil
  show ?case by simp
next
  case (Cons e evs)
  have "algoConfig (run (e # evs) s) = activeConfig evs (algoConfig (step e s))"
    using Cons.IH [of "step e s"] by simp
  also have "\<dots> = activeConfig (e # evs) (algoConfig s)"
    by (simp only: algoConfig_step activeConfig_Cons [of e evs])
  finally show ?case .
qed



lemma algoConfig_step_no_save: "\<not> isSave e \<Longrightarrow> algoConfig (step e s) = algoConfig s"
  by (cases e) (simp_all add: algoConfig_step)

section \<open>The sliders confine the configuration\<close>

lemma rangeValue_bounds:
  assumes "lo \<le> hi" "0 < stp" "(hi - lo) / stp = real_of_int n"
  shows "lo \<le> rangeValue lo hi stp v \<and> rangeValue lo hi stp v \<le> hi"
proof (cases "v < lo \<or> hi < v")
  case True
  with assms(1) show ?thesis by (auto simp: rangeValue_def)
next
  case False
  then have v: "lo \<le> v" "v \<le> hi" by auto
  have "round (0::real) \<le> round ((v - lo) / stp)"
    using v(1) assms(2) by (intro round_mono) simp
  then have lo': "0 \<le> round ((v - lo) / stp)" by simp
  have "(v - lo) / stp \<le> (hi - lo) / stp"
    using v(2) assms(2) by (simp add: divide_right_mono)
  then have "round ((v - lo) / stp) \<le> round (real_of_int n)"
    unfolding assms(3) by (rule round_mono)
  then have hi': "round ((v - lo) / stp) \<le> n" by (simp only: round_of_int)
  have "stp * real_of_int (round ((v - lo) / stp)) \<le> stp * real_of_int n"
    using hi' assms(2) by simp
  also have "\<dots> = hi - lo" using assms(2,3) by (simp add: field_simps)
  finally have up: "lo + stp * real_of_int (round ((v - lo) / stp)) \<le> hi" by simp
  have "0 \<le> stp * real_of_int (round ((v - lo) / stp))"
    using lo' assms(2) by simp
  with up False show ?thesis by (simp add: rangeValue_def)
qed

lemma rangeValue_sliders:
  "10 \<le> rangeValue 10 60 1 v \<and> rangeValue 10 60 1 v \<le> 60"
  "0.1 \<le> rangeValue 0.1 0.8 0.01 v \<and> rangeValue 0.1 0.8 0.01 v \<le> 0.8"
  "0.01 \<le> rangeValue 0.01 0.2 0.005 v \<and> rangeValue 0.01 0.2 0.005 v \<le> 0.2"
proof -
  show "10 \<le> rangeValue 10 60 1 v \<and> rangeValue 10 60 1 v \<le> 60"
    by (rule rangeValue_bounds [where n = 50]) simp_all
  show "0.1 \<le> rangeValue 0.1 0.8 0.01 v \<and> rangeValue 0.1 0.8 0.01 v \<le> 0.8"
    by (rule rangeValue_bounds [where n = 70]) simp_all
  show "0.01 \<le> rangeValue 0.01 0.2 0.005 v \<and> rangeValue 0.01 0.2 0.005 v \<le> 0.2"
    by (rule rangeValue_bounds [where n = 38]) simp_all
qed

lemma rangeValue_clamps:
  "v < lo \<Longrightarrow> rangeValue lo hi stp v = lo"
  "lo \<le> hi \<Longrightarrow> hi < v \<Longrightarrow> rangeValue lo hi stp v = hi"
  by (simp_all add: rangeValue_def)

lemma uiInv_modalEvent: "uiInv u \<Longrightarrow> uiInv (modalEvent ev u)"
  using rangeValue_sliders
  by (cases ev)
    (simp_all add: uiInv_def onClose_def changeMaxSlope_def changeMaxStepHeight_def
       changeMaxRoughness_def handleReset_def clickSave_def withinSliderRanges_def)

lemma uiInv_uiStep:
  assumes "uiInv u" "viaModal ev"
  shows "uiInv (uiStep ev u)"
proof (cases ev)
  case OpenConfig
  with assms show ?thesis by (simp add: uiInv_def openConfig_def)
next
  case (AppEvent e)
  with assms show ?thesis by (simp add: uiInv_def algoConfig_step_no_save)
qed (insert assms(1) uiInv_modalEvent [of u ev], simp_all)

lemma uiInv_uiRun: "uiInv u \<Longrightarrow> list_all viaModal evs \<Longrightarrow> uiInv (uiRun evs u)"
  by (induction evs arbitrary: u) (simp_all add: uiInv_uiStep)

lemma uiInv_uiInitial: "uiInv (uiInitial rnd)"
  by (simp add: uiInv_def uiInitial_def initialState_def withinSliderRanges_def)

section \<open>Risk values\<close>

lemma methaneInUnit_append:
  "methaneInUnit rs \<Longrightarrow> unitInterval (field r ''methane'') \<Longrightarrow>
   methaneInUnit (slice_last n rs @ [r])"
  by (simp add: methaneInUnit_def list_all_slice_last)

lemma riskInUnit_append:
  "riskInUnit ps \<Longrightarrow> unitInterval (riskLevel p) \<Longrightarrow> riskInUnit (slice_last n ps @ [p])"
  by (simp add: riskInUnit_def list_all_slice_last)

lemma methaneInUnit_last:
  "methaneInUnit rs \<Longrightarrow> rs \<noteq> [] \<Longrightarrow> unitInterval (field (last rs) ''methane'')"
  by (simp add: methaneInUnit_def list_all_iff)

lemma unitInv_externalTick: "unitInv s \<Longrightarrow> unitInv (externalTick now s)"
proof -
  assume inv: "unitInv s"
  have "unitInterval (case loopSensorData s of [] \<Rightarrow> JNum 0
           | r # rs \<Rightarrow> field (last (loopSensorData s)) ''methane'')"
  proof (cases "loopSensorData s")
    case Nil
    then show ?thesis by simp
  next
    case (Cons r rs)
    then have "loopSensorData s \<noteq> []" by simp
    with inv have "unitInterval (field (last (loopSensorData s)) ''methane'')"
      by (simp add: unitInv_def methaneInUnit_last)
    with Cons show ?thesis by simp
  qed
  with inv show ?thesis
    by (simp add: unitInv_def externalTick_def Let_def riskInUnit_append)
qed

lemma unitInv_syntheticTick: "unitInv s \<Longrightarrow> unitInv (syntheticTick now rnd s)"
proof -
  assume inv: "unitInv s"
  obtain newData t
    where g: "generateSensorData (mode s) (Some (algoConfig s)) now rnd (currentTime s) = (newData, t)"
    by (cases "generateSensorData (mode s) (Some (algoConfig s)) now rnd (currentTime s)")
  have "unitInterval (field newData ''methane'')"
    using generateSensorData_methane [of "mode s" "Some (algoConfig s)" now rnd "currentTime s"] g
    by simp
  with inv show ?thesis
    by (simp add: unitInv_def syntheticTick_def g Let_def riskInUnit_append methaneInUnit_append)
qed

lemma unitInv_updateSensorState:
  "unitInv s \<Longrightarrow> unitInterval (field (completeData now frag) ''methane'') \<Longrightarrow>
   unitInv (updateSensorState now frag s)"
  by (simp add: unitInv_def updateSensorState_def methaneInUnit_append)

lemma unitInv_handle: "unitInv s \<Longrightarrow> gasInUnit e \<Longrightarrow> unitInv (handle e s)"
proof (cases e)
  case (Tick now rnd)
  assume "unitInv s"
  with Tick show ?thesis
    by (simp add: dataLoopTick_def unitInv_externalTick unitInv_syntheticTick)
next
  case (WsMessage pr now now')
  assume "unitInv s" "gasInUnit e"
  with WsMessage show ?thesis
    by (cases "onmessage pr now") (simp_all add: handleWsMessage_def unitInv_updateSensorState)
next
  case (SerialData pr now now')
  assume "unitInv s" "gasInUnit e"
  with SerialData show ?thesis
    by (cases "parseData pr now") (simp_all add: handleSerialData_def unitInv_updateSensorState)
qed (simp_all add: unitInv_def handleSave_def)

lemma unitInv_render: "unitInv s' \<Longrightarrow> unitInv (render s s')"
  by (simp add: unitInv_def render_def)

lemma unitInv_step: "unitInv s \<Longrightarrow> gasInUnit e \<Longrightarrow> unitInv (step e s)"
  by (simp add: step_def unitInv_render unitInv_handle)

lemma unitInv_run:
  "unitInv s \<Longrightarrow> list_all gasInUnit evs \<Longrightarrow> unitInv (run evs s)"
  by (induction evs arbitrary: s) (simp_all add: unitInv_step)

lemma synthetic_point_unit:
  "\<not> isConnected s \<Longrightarrow> unitInterval (riskLevel (last (history (step (Tick now rnd) s))))"
  using generateSensorData_methane [of "mode s" "Some (algoConfig s)" now rnd "currentTime s"]
  by (auto simp: step_def dataLoopTick_def syntheticTick_def Let_def split: prod.splits)

lemma unitInv_initialState:
  assumes "\<forall>i. 0 \<le> rnd i \<and> rnd i \<le> 1"
  shows "unitInv (initialState rnd)"
  using assms
  by (simp add: unitInv_def initialState_def methaneInUnit_def riskInUnit_def
        generateInitialTrajectory_eq list_all_iff seedPoint_unit)

section \<open>The claims\<close>

text \<open>
  C1. The verdict of line 44 is the conjunction of three strict comparisons of the raw
  measurements with the limits of the configuration: a measurement equal to its limit
  gives a negative verdict, whatever the other two are, and the \<^verbatim>\<open>traversable\<close> field of a
  synthesized record is that verdict for the raw slope, step height and roughness of its
  tick. With the default limits, a slope of exactly 35 is not traversable.
\<close>

theorem traversable_strict_conjunction:
  "isPassable slope stepHeight roughness (Some config) =
     (slope < maxSlope config \<and> stepHeight < maxStepHeight config
        \<and> roughness < maxRoughness config)
   \<and> \<not> isPassable (maxSlope config) stepHeight roughness (Some config)
   \<and> \<not> isPassable slope (maxStepHeight config) roughness (Some config)
   \<and> \<not> isPassable slope stepHeight (maxRoughness config) (Some config)
   \<and> fst (generateSensorData m (Some config) now rnd t) ''traversable'' =
       Some (JBool (slope_at (t + 1) < maxSlope config
                    \<and> stepHeight_at (t + 1) < maxStepHeight config
                    \<and> roughness_of (rnd 3) < maxRoughness config))
   \<and> \<not> isPassable 35 0.1 0.01
         (Some \<lparr>maxSlope = 35, maxStepHeight = 0.32, maxRoughness = 0.05\<rparr>)"
  by (simp add: isPassable_Some generateSensorData_traversable)

text \<open>
  C2, as the code has it. \<^verbatim>\<open>updateSensorState\<close> merges a fragment onto a literal of
  defaults, not onto the previous record: the record it appends is the same whatever the
  state was, a key absent from the fragment has its default value, and a key present in
  the fragment has the fragment's value. Merging \<^verbatim>\<open>{battery: 42}\<close> gives the defaults with
  the battery level replaced by 42.
\<close>

theorem merge_onto_defaults:
  "last (sensorData (updateSensorState now newData s)) = completeData now newData
   \<and> (newData k = None \<longrightarrow> completeData now newData k = defaultData now k)
   \<and> (newData k = Some v \<longrightarrow> completeData now newData k = Some v)
   \<and> completeData now [''battery'' \<mapsto> JNum 42] = (defaultData now)(''battery'' \<mapsto> JNum 42)"
  by (auto simp: completeData_def map_add_def updateSensorState_def)

text \<open>
  C2, witness: for the fragment \<^verbatim>\<open>{battery: 42}\<close> the battery level comes from the fragment
  and the temperature is the default 20.
\<close>

theorem merge_onto_defaults_witness:
  "completeData ''10:00:01'' [''battery'' \<mapsto> JNum 42] ''battery'' = Some (JNum 42)
   \<and> completeData ''10:00:01'' [''battery'' \<mapsto> JNum 42] ''temperature'' = Some (JNum 20)"
proof -
  have "completeData ''10:00:01'' [''battery'' \<mapsto> JNum 42] ''temperature''
          = defaultData ''10:00:01'' ''temperature''"
    using merge_onto_defaults [of "''10:00:01''" "[''battery'' \<mapsto> JNum 42]" _ "''temperature''"]
    by simp
  moreover have "completeData ''10:00:01'' [''battery'' \<mapsto> JNum 42] ''battery'' = Some (JNum 42)"
    using merge_onto_defaults
            [of "''10:00:01''" "[''battery'' \<mapsto> JNum 42]" _ "''battery''" "JNum 42"]
    by simp
  ultimately show ?thesis by (simp add: defaultData_def)
qed

text \<open>
  C2, counterexample to the claim as stated: the previous record has a gas value of 0.5;
  after merging \<^verbatim>\<open>{battery: 42}\<close> the new record has a gas value of 0, so it is not the
  previous record with the battery level replaced.
\<close>

theorem merge_retains_prior_counterexample:
  "field (last (sensorData priorState)) ''methane'' = JNum 0.5
   \<and> field (last (sensorData (updateSensorState ''10:00:01'' [''battery'' \<mapsto> JNum 42] priorState)))
        ''methane'' = JNum 0
   \<and> last (sensorData (updateSensorState ''10:00:01'' [''battery'' \<mapsto> JNum 42] priorState))
        \<noteq> (last (sensorData priorState))(''battery'' \<mapsto> JNum 42)"
proof -
  have a: "field (last (sensorData priorState)) ''methane'' = JNum 0.5"
    by (simp add: priorState_def completeData_def field_def)
  have b: "field (last (sensorData
              (updateSensorState ''10:00:01'' [''battery'' \<mapsto> JNum 42] priorState)))
        ''methane'' = JNum 0"
    by (simp add: completeData_def field_def defaultData_def)
  have "field (last (sensorData
              (updateSensorState ''10:00:01'' [''battery'' \<mapsto> JNum 42] priorState)))
        ''methane''
        \<noteq> field ((last (sensorData priorState))(''battery'' \<mapsto> JNum 42)) ''methane''"
    using a b by (simp add: field_def)
  then have "last (sensorData (updateSensorState ''10:00:01'' [''battery'' \<mapsto> JNum 42] priorState))
        \<noteq> (last (sensorData priorState))(''battery'' \<mapsto> JNum 42)"
    by metis
  with a b show ?thesis by blast
qed

text \<open>
  C3. After any sequence of events from the initial state (timer ticks in either mode,
  socket messages, serial chunks, saves, mode and connection changes) the telemetry
  history holds at most 50 records and the trajectory at most 100 points. In such a state
  every append is a first-in first-out push: a tick with no transport connected pushes the
  synthesized record onto the telemetry history and its point onto the trajectory, a tick
  with a transport connected pushes its point onto the trajectory, and a socket message or
  a serial chunk that yields a fragment pushes the merged record onto the telemetry
  history; the entry is stored at the end, the oldest entry leaves when the buffer was
  full, and the other entries keep their order. Nothing else changes the two buffers.
\<close>

theorem buffers_bounded_fifo:
  "(let s = run evs (initialState rnd) in
    length (sensorData s) \<le> 50 \<and> length (history s) \<le> 100
    \<and> (\<not> isConnected s \<longrightarrow>
          sensorData (step (Tick now r) s) =
            fifoPush 50 (sensorData s)
              (fst (generateSensorData (mode s) (Some (algoConfig s)) now r (currentTime s)))
        \<and> history (step (Tick now r) s) =
            fifoPush 100 (history s)
              \<lparr>pt_x = pos_x (generatePosition (mode s) (currentTime s + 1)),
               pt_y = pos_y (generatePosition (mode s) (currentTime s + 1)),
               riskLevel = field (fst (generateSensorData (mode s) (Some (algoConfig s)) now r
                                    (currentTime s))) ''methane'',
               pt_timestamp = Some (JStr now)\<rparr>)
    \<and> (isConnected s \<longrightarrow>
          sensorData (step (Tick now r) s) = sensorData s
        \<and> history (step (Tick now r) s) =
            fifoPush 100 (history s)
              \<lparr>pt_x = pos_x (generatePosition (mode s) (currentTime s)),
               pt_y = pos_y (generatePosition (mode s) (currentTime s)),
               riskLevel = (case loopSensorData s of [] \<Rightarrow> JNum 0
                            | x # xs \<Rightarrow> field (last (loopSensorData s)) ''methane''),
               pt_timestamp = Some (JStr now)\<rparr>)
    \<and> (onmessage pr now = Some frag \<longrightarrow>
          sensorData (step (WsMessage pr now now') s) =
            fifoPush 50 (sensorData s) (completeData now' frag)
        \<and> history (step (WsMessage pr now now') s) = history s)
    \<and> (parseData pr now = Some frag \<longrightarrow>
          sensorData (step (SerialData pr now now') s) =
            fifoPush 50 (sensorData s) (completeData now' frag)
        \<and> history (step (SerialData pr now now') s) = history s)
    \<and> (onmessage pr now = None \<longrightarrow>
          sensorData (step (WsMessage pr now now') s) = sensorData s
        \<and> history (step (WsMessage pr now now') s) = history s)
    \<and> (parseData pr now = None \<longrightarrow>
          sensorData (step (SerialData pr now now') s) = sensorData s
        \<and> history (step (SerialData pr now now') s) = history s)
    \<and> (\<not> isTick e \<and> \<not> fromTransport e \<longrightarrow>
          sensorData (step e s) = sensorData s \<and> history (step e s) = history s))"
proof -
  define s where "s = run evs (initialState rnd)"
  have b: "length (sensorData s) \<le> 50" "length (history s) \<le> 100"
    using run_bounds [of "initialState rnd" evs] initialState_bounds [of rnd]
    by (simp_all add: s_def)
  have p50: "slice_last 49 (sensorData s) @ [x] = fifoPush 50 (sensorData s) x" for x
    using slice_last_fifoPush [of "sensorData s" 49 x] b(1) by simp
  have p100: "slice_last 99 (history s) @ [p] = fifoPush 100 (history s) p" for p
    using slice_last_fifoPush [of "history s" 99 p] b(2) by simp
  have syn: "\<not> isConnected s \<longrightarrow>
          sensorData (step (Tick now r) s) =
            fifoPush 50 (sensorData s)
              (fst (generateSensorData (mode s) (Some (algoConfig s)) now r (currentTime s)))
        \<and> history (step (Tick now r) s) =
            fifoPush 100 (history s)
              \<lparr>pt_x = pos_x (generatePosition (mode s) (currentTime s + 1)),
               pt_y = pos_y (generatePosition (mode s) (currentTime s + 1)),
               riskLevel = field (fst (generateSensorData (mode s) (Some (algoConfig s)) now r
                                    (currentTime s))) ''methane'',
               pt_timestamp = Some (JStr now)\<rparr>"
    by (simp add: step_def dataLoopTick_def syntheticTick_buffers p50 p100)
  have ext: "isConnected s \<longrightarrow>
          sensorData (step (Tick now r) s) = sensorData s
        \<and> history (step (Tick now r) s) =
            fifoPush 100 (history s)
              \<lparr>pt_x = pos_x (generatePosition (mode s) (currentTime s)),
               pt_y = pos_y (generatePosition (mode s) (currentTime s)),
               riskLevel = (case loopSensorData s of [] \<Rightarrow> JNum 0
                            | x # xs \<Rightarrow> field (last (loopSensorData s)) ''methane''),
               pt_timestamp = Some (JStr now)\<rparr>"
    by (simp add: step_def dataLoopTick_def externalTick_buffers p100)
  have ws: "onmessage pr now = Some frag \<longrightarrow>
          sensorData (step (WsMessage pr now now') s) =
            fifoPush 50 (sensorData s) (completeData now' frag)
        \<and> history (step (WsMessage pr now now') s) = history s"
    by (simp add: step_def handleWsMessage_def updateSensorState_def p50)
  have ser: "parseData pr now = Some frag \<longrightarrow>
          sensorData (step (SerialData pr now now') s) =
            fifoPush 50 (sensorData s) (completeData now' frag)
        \<and> history (step (SerialData pr now now') s) = history s"
    using parseData_methane [of pr now frag]
    by (simp add: step_def handleSerialData_def updateSensorState_def p50)
  have wsn: "onmessage pr now = None \<longrightarrow>
          sensorData (step (WsMessage pr now now') s) = sensorData s
        \<and> history (step (WsMessage pr now now') s) = history s"
    by (simp add: step_def handleWsMessage_def)
  have sern: "parseData pr now = None \<longrightarrow>
          sensorData (step (SerialData pr now now') s) = sensorData s
        \<and> history (step (SerialData pr now now') s) = history s"
    by (simp add: step_def handleSerialData_def)
  have oth: "\<not> isTick e \<and> \<not> fromTransport e \<longrightarrow>
          sensorData (step e s) = sensorData s \<and> history (step e s) = history s"
    by (cases e) (simp_all add: step_def handleSave_def)
  from b syn ext ws ser wsn sern oth show ?thesis
    unfolding Let_def s_def [symmetric] by blast
qed

text \<open>
  C3, witness. In the initial state no transport is connected and the trajectory is
  full: a tick stores the synthesized record as the only entry of the telemetry history,
  and the trajectory loses its first seed point and gains the new point at its end. After
  the socket has connected, a tick drops the first seed point and appends a point with
  risk 0. The socket message \<^verbatim>\<open>{"gas": 0.2}\<close> and the serial chunk \<^verbatim>\<open>{"m": 0.2}\<close> each
  yield a fragment, and the merged record becomes the only entry of the telemetry history;
  an unparsable message or chunk and a change of mode leave the buffers as they are.
\<close>

theorem buffers_bounded_fifo_witness:
  "\<not> isConnected (run [] (initialState (\<lambda>i. 0)))
   \<and> sensorData (step (Tick ''10:00:00'' (\<lambda>i. 0)) (run [] (initialState (\<lambda>i. 0)))) =
       [fst (generateSensorData TRACK
              (Some \<lparr>maxSlope = 35, maxStepHeight = 0.32, maxRoughness = 0.05\<rparr>)
              ''10:00:00'' (\<lambda>i. 0) 0)]
   \<and> butlast (history (step (Tick ''10:00:00'' (\<lambda>i. 0)) (run [] (initialState (\<lambda>i. 0))))) =
       tl (generateInitialTrajectory (\<lambda>i. 0))
   \<and> pt_timestamp (last (history (step (Tick ''10:00:00'' (\<lambda>i. 0))
        (run [] (initialState (\<lambda>i. 0)))))) = Some (JStr ''10:00:00'')
   \<and> isConnected (run [SetWsConnected True] (initialState (\<lambda>i. 0)))
   \<and> history (step (Tick ''10:00:00'' (\<lambda>i. 0))
        (run [SetWsConnected True] (initialState (\<lambda>i. 0)))) =
       tl (generateInitialTrajectory (\<lambda>i. 0))
         @ [\<lparr>pt_x = pos_x (generatePosition TRACK 0), pt_y = pos_y (generatePosition TRACK 0),
             riskLevel = JNum 0, pt_timestamp = Some (JStr ''10:00:00'')\<rparr>]
   \<and> onmessage (Some (JObject [(''gas'', JNum 0.2)])) ''10:00:00'' = Some wsFragment
   \<and> sensorData (step (WsMessage (Some (JObject [(''gas'', JNum 0.2)])) ''10:00:00'' ''10:00:01'')
        (run [] (initialState (\<lambda>i. 0)))) = [completeData ''10:00:01'' wsFragment]
   \<and> parseData (Some (JObject [(''m'', JNum 0.2)])) ''10:00:00'' = Some serialFragment
   \<and> sensorData (step (SerialData (Some (JObject [(''m'', JNum 0.2)])) ''10:00:00'' ''10:00:01'')
        (run [] (initialState (\<lambda>i. 0)))) = [completeData ''10:00:01'' serialFragment]
   \<and> onmessage None ''10:00:00'' = None
   \<and> sensorData (step (WsMessage None ''10:00:00'' ''10:00:01'')
        (run [] (initialState (\<lambda>i. 0)))) = []
   \<and> parseData None ''10:00:00'' = None
   \<and> sensorData (step (SerialData None ''10:00:00'' ''10:00:01'')
        (run [] (initialState (\<lambda>i. 0)))) = []
   \<and> \<not> isTick (SetMode FLIGHT) \<and> \<not> fromTransport (SetMode FLIGHT)
   \<and> history (step (SetMode FLIGHT) (run [] (initialState (\<lambda>i. 0)))) =
       generateInitialTrajectory (\<lambda>i. 0)"
proof -
  let ?s0 = "run [] (initialState (\<lambda>i. 0))"
  let ?s1 = "run [SetWsConnected True] (initialState (\<lambda>i. 0))"
  have a: "\<not> isConnected ?s0" by (simp add: isConnected_def initialState_def)
  have b: "isConnected ?s1" by (simp add: step_def) (simp add: isConnected_def)
  have c: "onmessage (Some (JObject [(''gas'', JNum 0.2)])) ''10:00:00'' = Some wsFragment"
    by (simp add: onmessage_def js_or_def wsFragment_def)
  have l: "length (generateInitialTrajectory (\<lambda>i. 0)) = 100"
    by (rule length_generateInitialTrajectory)
  have f0: "mode ?s0 = TRACK" "currentTime ?s0 = 0" "sensorData ?s0 = []"
     "history ?s0 = generateInitialTrajectory (\<lambda>i. 0)"
     "algoConfig ?s0 = \<lparr>maxSlope = 35, maxStepHeight = 0.32, maxRoughness = 0.05\<rparr>"
    by (simp_all add: initialState_def)
  have f1: "mode ?s1 = TRACK" "currentTime ?s1 = 0" "loopSensorData ?s1 = []"
     "history ?s1 = generateInitialTrajectory (\<lambda>i. 0)"
    by (simp_all add: initialState_def step_def render_def)
  from buffers_bounded_fifo
         [of "[]" "\<lambda>i. 0" "''10:00:00''" "\<lambda>i. 0" "Some (JObject [(''gas'', JNum 0.2)])"
             wsFragment "''10:00:01''"] a c
  have t0: "sensorData (step (Tick ''10:00:00'' (\<lambda>i. 0)) ?s0) =
       [fst (generateSensorData TRACK
              (Some \<lparr>maxSlope = 35, maxStepHeight = 0.32, maxRoughness = 0.05\<rparr>)
              ''10:00:00'' (\<lambda>i. 0) 0)]"
    and t1: "butlast (history (step (Tick ''10:00:00'' (\<lambda>i. 0)) ?s0)) =
       tl (generateInitialTrajectory (\<lambda>i. 0))"
    and t2: "pt_timestamp (last (history (step (Tick ''10:00:00'' (\<lambda>i. 0)) ?s0)))
       = Some (JStr ''10:00:00'')"
    and t3: "sensorData
        (step (WsMessage (Some (JObject [(''gas'', JNum 0.2)])) ''10:00:00'' ''10:00:01'') ?s0)
       = [completeData ''10:00:01'' wsFragment]"
    unfolding Let_def f0 by (simp_all add: fifoPush_def l)
  from buffers_bounded_fifo [of "[SetWsConnected True]" "\<lambda>i. 0" "''10:00:00''" "\<lambda>i. 0"] b
  have t4: "history (step (Tick ''10:00:00'' (\<lambda>i. 0)) ?s1) =
       tl (generateInitialTrajectory (\<lambda>i. 0))
         @ [\<lparr>pt_x = pos_x (generatePosition TRACK 0), pt_y = pos_y (generatePosition TRACK 0),
             riskLevel = JNum 0, pt_timestamp = Some (JStr ''10:00:00'')\<rparr>]"
    unfolding Let_def f1 by (simp add: fifoPush_def l)
  have d: "parseData (Some (JObject [(''m'', JNum 0.2)])) ''10:00:00'' = Some serialFragment"
    by (simp add: parseData_def js_or_def serialFragment_def)
  from buffers_bounded_fifo
         [of "[]" "\<lambda>i. 0" "''10:00:00''" "\<lambda>i. 0" "Some (JObject [(''m'', JNum 0.2)])"
             serialFragment "''10:00:01''"] d
  have t5: "sensorData
        (step (SerialData (Some (JObject [(''m'', JNum 0.2)])) ''10:00:00'' ''10:00:01'') ?s0)
       = [completeData ''10:00:01'' serialFragment]"
    unfolding Let_def f0 by (simp add: fifoPush_def)
  have n: "onmessage None ''10:00:00'' = None" "parseData None ''10:00:00'' = None"
    by (simp_all add: onmessage_def parseData_def)
  have m: "\<not> isTick (SetMode FLIGHT)" "\<not> fromTransport (SetMode FLIGHT)"
    by simp_all
  from buffers_bounded_fifo
         [of "[]" "\<lambda>i. 0" "''10:00:00''" "\<lambda>i. 0" None _ "''10:00:01''" "SetMode FLIGHT"] n m
  have t6: "sensorData (step (WsMessage None ''10:00:00'' ''10:00:01'') ?s0) = []"
    and t7: "sensorData (step (SerialData None ''10:00:00'' ''10:00:01'') ?s0) = []"
    and t8: "history (step (SetMode FLIGHT) ?s0) = generateInitialTrajectory (\<lambda>i. 0)"
    unfolding Let_def f0 by simp_all
  from a b c d n m t0 t1 t2 t3 t4 t5 t6 t7 t8 show ?thesis by blast
qed

text \<open>
  C4, the code at the socket message \<^verbatim>\<open>{"gas": 0}\<close>: \<^verbatim>\<open>data.gas || data.methane\<close> is
  \<^verbatim>\<open>undefined\<close>, the fragment carries the key \<^verbatim>\<open>methane\<close> with that value, the spread puts
  it over the default, and the record appended to the telemetry history has an undefined
  gas value: it is not complete.
\<close>

theorem ws_zero_gas_record_incomplete:
  "field (last (sensorData
      (step (WsMessage (Some (JObject [(''gas'', JNum 0)])) ''10:00:00'' ''10:00:00'')
         (initialState (\<lambda>i. 0))))) ''methane'' = JUndefined
   \<and> \<not> completeRecord (last (sensorData
      (step (WsMessage (Some (JObject [(''gas'', JNum 0)])) ''10:00:00'' ''10:00:00'')
         (initialState (\<lambda>i. 0)))))"
  by (simp add: step_def handleWsMessage_def onmessage_def js_or_def field_def completeData_def
        completeRecord_def SensorData_keys_def)

text \<open>
  C5, as the code has it. Nothing validates or rejects a configuration. A value reaches
  the modal from the active configuration, from the reset button or from a range slider,
  and a slider confines its value to its range: a position beyond a bound is reported as
  that bound. The save button stores the configuration of the modal as it is. Hence,
  whatever the operator does, the active configuration lies within the three ranges, and
  a save of an edited configuration always replaces the prior one; after any sequence of
  events the active configuration is the one saved last.
\<close>

theorem config_confined_by_sliders:
  "(list_all viaModal evs \<longrightarrow> withinSliderRanges (algoConfig (app (uiRun evs (uiInitial rnd)))))
   \<and> (hi < v \<and> lo \<le> hi \<longrightarrow> rangeValue lo hi stp v = hi)
   \<and> (v < lo \<longrightarrow> rangeValue lo hi stp v = lo)
   \<and> (isConfigModalOpen (app u) \<and> \<not> localIsActive u \<longrightarrow>
        algoConfig (app (uiStep ClickSave u)) = localConfig u)
   \<and> algoConfig (step (Save c) s) = c
   \<and> algoConfig (run es s) = activeConfig es (algoConfig s)"
  using uiInv_uiRun [OF uiInv_uiInitial, of evs rnd]
  by (auto simp: uiInv_def rangeValue_clamps clickSave_def algoConfig_run)

text \<open>
  C5, witness: the modal is opened, the slope slider is asked for 100 and for 5, and the
  configuration is saved; a tick follows.
\<close>

theorem config_confined_by_sliders_witness:
  "list_all viaModal
     [OpenConfig, ChangeMaxSlope 100, ClickSave, AppEvent (Tick ''10:00:00'' (\<lambda>i. 0))]
   \<and> withinSliderRanges (algoConfig (app (uiRun
        [OpenConfig, ChangeMaxSlope 100, ClickSave, AppEvent (Tick ''10:00:00'' (\<lambda>i. 0))]
        (uiInitial (\<lambda>i. 0)))))
   \<and> rangeValue 10 60 1 100 = 60
   \<and> rangeValue 10 60 1 5 = 10
   \<and> algoConfig (app (uiStep ClickSave (uiRun [OpenConfig, ChangeMaxSlope 100] (uiInitial (\<lambda>i. 0)))))
       = \<lparr>maxSlope = 60, maxStepHeight = 0.32, maxRoughness = 0.05\<rparr>"
proof -
  let ?u = "uiRun [OpenConfig, ChangeMaxSlope 100] (uiInitial (\<lambda>i. 0))"
  have a: "isConfigModalOpen (app ?u) \<and> \<not> localIsActive ?u"
    by (simp add: uiInitial_def openConfig_def changeMaxSlope_def initialState_def)
  have b: "localConfig ?u = \<lparr>maxSlope = 60, maxStepHeight = 0.32, maxRoughness = 0.05\<rparr>"
    by (simp add: uiInitial_def openConfig_def changeMaxSlope_def initialState_def rangeValue_def)
  from a b
    config_confined_by_sliders
      [of "[OpenConfig, ChangeMaxSlope 100, ClickSave, AppEvent (Tick ''10:00:00'' (\<lambda>i. 0))]"
          "\<lambda>i. 0" 60 100 10 1 ?u]
    config_confined_by_sliders [of "[]" "\<lambda>i. 0" 60 5 10 1 ?u]
  show ?thesis by simp
qed

text \<open>
  C5, counterexample to the claim as stated: a maximal slope of 100 is out of range; the
  operator opens the modal, asks the slope slider for 100 and saves. The replacement is not
  rejected and the prior configuration does not stay: the active configuration now has
  the maximal slope 60, the value clamped to the bound.
\<close>

theorem out_of_range_clamped_counterexample:
  "\<not> withinSliderRanges \<lparr>maxSlope = 100, maxStepHeight = 0.32, maxRoughness = 0.05\<rparr>
   \<and> algoConfig (app (uiRun [OpenConfig, ChangeMaxSlope 100, ClickSave] (uiInitial (\<lambda>i. 0))))
       = \<lparr>maxSlope = 60, maxStepHeight = 0.32, maxRoughness = 0.05\<rparr>
   \<and> algoConfig (app (uiRun [OpenConfig, ChangeMaxSlope 100, ClickSave] (uiInitial (\<lambda>i. 0))))
       \<noteq> algoConfig (app (uiInitial (\<lambda>i. 0)))"
  by (simp add: uiInitial_def openConfig_def changeMaxSlope_def clickSave_def rangeValue_def
        initialState_def withinSliderRanges_def)

text \<open>
  C6, the code at the serial chunk \<^verbatim>\<open>{"t": 24}\<close>, which has no gas key: \<^verbatim>\<open>parseData\<close> gives
  it a gas value of 0, the guard of \<^verbatim>\<open>handleSerialData\<close> passes, and a record with gas 0 and
  temperature 24 is appended to the telemetry history. The socket message \<^verbatim>\<open>{"temp": 24}\<close>
  is appended as well: that path has no guard.
\<close>

theorem fragment_without_gas_is_appended:
  "sensorData (step (SerialData (Some (JObject [(''t'', JNum 24)])) ''10:00:00'' ''10:00:00'')
      (initialState (\<lambda>i. 0))) \<noteq> sensorData (initialState (\<lambda>i. 0))
   \<and> field (last (sensorData
        (step (SerialData (Some (JObject [(''t'', JNum 24)])) ''10:00:00'' ''10:00:00'')
           (initialState (\<lambda>i. 0))))) ''methane'' = JNum 0
   \<and> field (last (sensorData
        (step (SerialData (Some (JObject [(''t'', JNum 24)])) ''10:00:00'' ''10:00:00'')
           (initialState (\<lambda>i. 0))))) ''temperature'' = JNum 24
   \<and> sensorData (step (WsMessage (Some (JObject [(''temp'', JNum 24)])) ''10:00:00'' ''10:00:00'')
      (initialState (\<lambda>i. 0))) \<noteq> sensorData (initialState (\<lambda>i. 0))"
  by (simp add: step_def handleSerialData_def parseData_def handleWsMessage_def onmessage_def
        js_or_def field_def completeData_def updateSensorState_def initialState_def
        slice_last_def)



text \<open>
  C8, as the code has it. No value is clamped, yet the risk stays in the unit interval as
  long as the gas values do: when every draw of the random source is between 0 and 1 and
  every record merged from a transport fragment has a gas value in the unit interval, then
  after any sequence of events every point of the trajectory, seed point or appended, has
  a risk in the unit interval. The gas value of a synthesized record is always in the unit
  interval, so the point appended by a tick with no transport connected has a risk in the
  unit interval in every state.
\<close>

theorem riskLevel_unit_for_unit_gas:
  "((\<forall>i. 0 \<le> rnd i \<and> rnd i \<le> 1) \<and> list_all gasInUnit evs
      \<longrightarrow> riskInUnit (history (run evs (initialState rnd))))
   \<and> (\<not> isConnected s
      \<longrightarrow> unitInterval (riskLevel (last (history (step (Tick now rnd') s)))))"
  using unitInv_run [OF unitInv_initialState, of rnd evs] synthetic_point_unit [of s now rnd']
  by (auto simp: unitInv_def)

text \<open>
  C8, witness: a synthetic tick, the socket connects, the socket message \<^verbatim>\<open>{"gas": 0.3}\<close> and
  the serial chunk \<^verbatim>\<open>{"m": 0.4}\<close> arrive, and a connected tick follows; and the first tick of
  the initial state.
\<close>

theorem riskLevel_unit_for_unit_gas_witness:
  "list_all gasInUnit
     [Tick ''10:00:00'' (\<lambda>i. 1 / 2), SetWsConnected True,
      WsMessage (Some (JObject [(''gas'', JNum 0.3)])) ''10:00:01'' ''10:00:01'',
      SerialData (Some (JObject [(''m'', JNum 0.4)])) ''10:00:01'' ''10:00:01'',
      Tick ''10:00:02'' (\<lambda>i. 1 / 2)]
   \<and> riskInUnit (history (run
        [Tick ''10:00:00'' (\<lambda>i. 1 / 2), SetWsConnected True,
         WsMessage (Some (JObject [(''gas'', JNum 0.3)])) ''10:00:01'' ''10:00:01'',
         SerialData (Some (JObject [(''m'', JNum 0.4)])) ''10:00:01'' ''10:00:01'',
         Tick ''10:00:02'' (\<lambda>i. 1 / 2)]
        (initialState (\<lambda>i. 1 / 2))))
   \<and> \<not> isConnected (initialState (\<lambda>i. 1 / 2))
   \<and> unitInterval (riskLevel (last (history
        (step (Tick ''10:00:00'' (\<lambda>i. 1 / 2)) (initialState (\<lambda>i. 1 / 2))))))"
proof -
  have g: "list_all gasInUnit
     [Tick ''10:00:00'' (\<lambda>i. 1 / 2), SetWsConnected True,
      WsMessage (Some (JObject [(''gas'', JNum 0.3)])) ''10:00:01'' ''10:00:01'',
      SerialData (Some (JObject [(''m'', JNum 0.4)])) ''10:00:01'' ''10:00:01'',
      Tick ''10:00:02'' (\<lambda>i. 1 / 2)]"
    by (simp add: onmessage_def parseData_def js_or_def completeData_def field_def)
  have a: "\<not> isConnected (initialState (\<lambda>i. 1 / 2))"
    by (simp add: isConnected_def initialState_def)
  from g a
    riskLevel_unit_for_unit_gas
      [of "\<lambda>i. 1 / 2"
          "[Tick ''10:00:00'' (\<lambda>i. 1 / 2), SetWsConnected True,
            WsMessage (Some (JObject [(''gas'', JNum 0.3)])) ''10:00:01'' ''10:00:01'',
            SerialData (Some (JObject [(''m'', JNum 0.4)])) ''10:00:01'' ''10:00:01'',
            Tick ''10:00:02'' (\<lambda>i. 1 / 2)]"
          "initialState (\<lambda>i. 1 / 2)" "''10:00:00''" "\<lambda>i. 1 / 2"]
  show ?thesis by simp
qed

text \<open>
  C8, counterexample to the claim as stated: the socket connects, the message
  \<^verbatim>\<open>{"gas": 5}\<close> arrives, and the next tick appends a trajectory point with a risk of 5.
\<close>

theorem riskLevel_unclamped_counterexample:
  "riskLevel (last (history (run
      [SetWsConnected True,
       WsMessage (Some (JObject [(''gas'', JNum 5)])) ''10:00:00'' ''10:00:00'',
       Tick ''10:00:01'' (\<lambda>i. 0)]
      (initialState (\<lambda>i. 0))))) = JNum 5
   \<and> \<not> unitInterval (riskLevel (last (history (run
      [SetWsConnected True,
       WsMessage (Some (JObject [(''gas'', JNum 5)])) ''10:00:00'' ''10:00:00'',
       Tick ''10:00:01'' (\<lambda>i. 0)]
      (initialState (\<lambda>i. 0))))))"
proof -
  have "riskLevel (last (history (run
      [SetWsConnected True,
       WsMessage (Some (JObject [(''gas'', JNum 5)])) ''10:00:00'' ''10:00:00'',
       Tick ''10:00:01'' (\<lambda>i. 0)]
      (initialState (\<lambda>i. 0))))) = JNum 5"
    by (simp add: step_def render_def dataLoopDeps_def initialState_def handleWsMessage_def
        onmessage_def updateSensorState_def dataLoopTick_def isConnected_def externalTick_def
        Let_def js_or_def field_def completeData_def slice_last_def)
  then show ?thesis by simp
qed

text \<open>
  C9. The seed trajectory, which is the initial trajectory of the application, has
  exactly 100 points; point \<open>i\<close> lies on the orbit at \<open>x = 50 + 30 cos (0.1 i)\<close>,
  \<open>y = 50 + 30 sin (0.1 i)\<close>, has no timestamp, and has the risk 0.8 when \<open>x > 50\<close> and
  \<open>y < 50\<close> and 0.1 elsewhere, plus a jitter of 0.2 times the random draw of its iteration,
  which is at least 0 and less than 0.2 for a draw in \<open>[0, 1)\<close>. The function has no
  argument but the random source: no telemetry enters it.
\<close>

theorem seed_trajectory_orbit:
  "length (generateInitialTrajectory rnd) = 100
   \<and> history (initialState rnd) = generateInitialTrajectory rnd
   \<and> (\<forall>i<100.
        pt_x (generateInitialTrajectory rnd ! i) = 50 + 30 * cos (0.1 * real i)
      \<and> pt_y (generateInitialTrajectory rnd ! i) = 50 + 30 * sin (0.1 * real i)
      \<and> riskLevel (generateInitialTrajectory rnd ! i) =
          JNum ((if pt_x (generateInitialTrajectory rnd ! i) > 50
                    \<and> pt_y (generateInitialTrajectory rnd ! i) < 50 then 0.8 else 0.1)
                + rnd i * 0.2)
      \<and> pt_timestamp (generateInitialTrajectory rnd ! i) = None
      \<and> (0 \<le> rnd i \<and> rnd i < 1 \<longrightarrow> 0 \<le> rnd i * 0.2 \<and> rnd i * 0.2 < 0.2))"
  by (simp add: generateInitialTrajectory_eq seedPoint_def Let_def startX_def startY_def
        radius_def mult.commute initialState_def)

text \<open>C9, witness: the first seed point, with every draw equal to 0.5.\<close>

theorem seed_trajectory_orbit_witness:
  "pt_x (generateInitialTrajectory (\<lambda>i. 1 / 2) ! 0) = 80
   \<and> pt_y (generateInitialTrajectory (\<lambda>i. 1 / 2) ! 0) = 50
   \<and> riskLevel (generateInitialTrajectory (\<lambda>i. 1 / 2) ! 0) = JNum 0.2
   \<and> length (generateInitialTrajectory (\<lambda>i. 1 / 2)) = 100"
  using seed_trajectory_orbit [of "\<lambda>i. 1 / 2"] by (auto dest!: spec [of _ 0])

text \<open>
  C10. Whatever the state, and so whatever the active configuration: a socket message or
  a serial chunk either changes nothing (no fragment came out of the parser) or appends
  the record merged from the parser's fragment, and in that record slope, step height and
  roughness are 0 and the verdict is \<^verbatim>\<open>true\<close>: no parser produces those keys, and the
  decision of the synthesizer is not applied.
\<close>

theorem external_records_geometry_defaults:
  "(case onmessage pr now of
      None \<Rightarrow> handleWsMessage pr now now' s = s
    | Some frag \<Rightarrow>
        sensorData (handleWsMessage pr now now' s)
          = slice_last 49 (sensorData s) @ [completeData now' frag]
        \<and> field (completeData now' frag) ''slope'' = JNum 0
        \<and> field (completeData now' frag) ''stepHeight'' = JNum 0
        \<and> field (completeData now' frag) ''roughness'' = JNum 0
        \<and> field (completeData now' frag) ''traversable'' = JBool True)
   \<and> (case parseData pr now of
      None \<Rightarrow> handleSerialData pr now now' s = s
    | Some frag \<Rightarrow>
        sensorData (handleSerialData pr now now' s)
          = slice_last 49 (sensorData s) @ [completeData now' frag]
        \<and> field (completeData now' frag) ''slope'' = JNum 0
        \<and> field (completeData now' frag) ''stepHeight'' = JNum 0
        \<and> field (completeData now' frag) ''roughness'' = JNum 0
        \<and> field (completeData now' frag) ''traversable'' = JBool True)"
proof
  show "case onmessage pr now of
      None \<Rightarrow> handleWsMessage pr now now' s = s
    | Some frag \<Rightarrow>
        sensorData (handleWsMessage pr now now' s)
          = slice_last 49 (sensorData s) @ [completeData now' frag]
        \<and> field (completeData now' frag) ''slope'' = JNum 0
        \<and> field (completeData now' frag) ''stepHeight'' = JNum 0
        \<and> field (completeData now' frag) ''roughness'' = JNum 0
        \<and> field (completeData now' frag) ''traversable'' = JBool True"
  proof (cases "onmessage pr now")
    case None
    then show ?thesis by (simp add: handleWsMessage_def)
  next
    case (Some frag)
    then show ?thesis
      using completeData_geometry [OF onmessage_geometry [OF Some], of now']
      by (simp add: handleWsMessage_def updateSensorState_def)
  qed
  show "case parseData pr now of
      None \<Rightarrow> handleSerialData pr now now' s = s
    | Some frag \<Rightarrow>
        sensorData (handleSerialData pr now now' s)
          = slice_last 49 (sensorData s) @ [completeData now' frag]
        \<and> field (completeData now' frag) ''slope'' = JNum 0
        \<and> field (completeData now' frag) ''stepHeight'' = JNum 0
        \<and> field (completeData now' frag) ''roughness'' = JNum 0
        \<and> field (completeData now' frag) ''traversable'' = JBool True"
  proof (cases "parseData pr now")
    case None
    then show ?thesis by (simp add: handleSerialData_def)
  next
    case (Some frag)
    then show ?thesis
      using completeData_geometry [OF parseData_geometry [OF Some], of now']
            parseData_methane [OF Some]
      by (simp add: handleSerialData_def updateSensorState_def)
  qed
qed

text \<open>
  C10, witness: the socket message \<^verbatim>\<open>{"gas": 0.2}\<close> and the serial chunk \<^verbatim>\<open>{"m": 0.2}\<close> in
  the initial state.
\<close>

theorem external_records_geometry_defaults_witness:
  "onmessage (Some (JObject [(''gas'', JNum 0.2)])) ''10:00:00'' \<noteq> None
   \<and> field (last (sensorData (handleWsMessage (Some (JObject [(''gas'', JNum 0.2)]))
         ''10:00:00'' ''10:00:00'' (initialState (\<lambda>i. 0))))) ''slope'' = JNum 0
   \<and> field (last (sensorData (handleWsMessage (Some (JObject [(''gas'', JNum 0.2)]))
         ''10:00:00'' ''10:00:00'' (initialState (\<lambda>i. 0))))) ''traversable'' = JBool True
   \<and> parseData (Some (JObject [(''m'', JNum 0.2)])) ''10:00:00'' \<noteq> None
   \<and> field (last (sensorData (handleSerialData (Some (JObject [(''m'', JNum 0.2)]))
         ''10:00:00'' ''10:00:00'' (initialState (\<lambda>i. 0))))) ''slope'' = JNum 0
   \<and> field (last (sensorData (handleSerialData (Some (JObject [(''m'', JNum 0.2)]))
         ''10:00:00'' ''10:00:00'' (initialState (\<lambda>i. 0))))) ''traversable'' = JBool True"
proof -
  have a: "onmessage (Some (JObject [(''gas'', JNum 0.2)])) ''10:00:00'' \<noteq> None"
    by (simp add: onmessage_def)
  have b: "parseData (Some (JObject [(''m'', JNum 0.2)])) ''10:00:00'' \<noteq> None"
    by (simp add: parseData_def)
  from a b
    external_records_geometry_defaults
      [of "Some (JObject [(''gas'', JNum 0.2)])" "''10:00:00''" "''10:00:00''"
          "initialState (\<lambda>i. 0)"]
    external_records_geometry_defaults
      [of "Some (JObject [(''m'', JNum 0.2)])" "''10:00:00''" "''10:00:00''"
          "initialState (\<lambda>i. 0)"]
  show ?thesis by (auto split: option.splits)
qed

end
